theory Spec2Isabelle
  imports Main
begin

section \<open>Data of index.js\<close>

text \<open>
  The payload that \<^verbatim>\<open>JSON.parse(body)\<close> hands to the code is a JSON object. The code reads
  or writes five of its properties (\<^verbatim>\<open>access_token\<close>, \<^verbatim>\<open>expires_in\<close>, \<^verbatim>\<open>refresh_token\<close>,
  \<^verbatim>\<open>openid\<close>, \<^verbatim>\<open>create_at\<close>); each of them may be missing (\<open>None\<close> is JavaScript's
  \<^verbatim>\<open>undefined\<close>) and, when present, has the type the doc comments of index.js give it
  (lines 96-104): strings for the tokens and the openid, a number for \<^verbatim>\<open>expires_in\<close>.
  Numbers are integers (\<open>int\<close>); doubles, and payloads that are not objects, are outside
  this model. Every other property is kept, uninterpreted, in \<open>rest\<close> (name and value as
  text). Strings are byte strings: a JavaScript string is read as its UTF-8 encoding.
\<close>

record jsobject =
  access_token :: "string option"
  expires_in :: "int option"
  refresh_token :: "string option"
  openid :: "string option"
  create_at :: "int option"
  rest :: "(string \<times> string) list"

text \<open>\<^verbatim>\<open>AccessToken(data)\<close> (lines 4-9): a wrapper with the one property \<^verbatim>\<open>data\<close>.\<close>

datatype AccessToken = AccessToken (data: jsobject)

text \<open>
  The object built by \<^verbatim>\<open>new Auth(appid, appsecret)\<close> (lines 39-51). The property
  \<^verbatim>\<open>store\<close> is a JavaScript object used as a dictionary, here a map from property names
  to payloads; names that every JavaScript object inherits (such as \<^verbatim>\<open>toString\<close>) are
  not modelled.
\<close>

record Auth =
  appid :: string
  appsecret :: string
  store :: "string \<rightharpoonup> jsobject"

text \<open>
  \<^verbatim>\<open>request.post(url, {form: info}, callback)\<close>: the library \<^verbatim>\<open>request\<close> is not part of the
  repository. A request is the URL and the form, in the order the source writes the
  properties; the library later calls back with \<^verbatim>\<open>err\<close> set, or with a body.
  A body is classified by what \<^verbatim>\<open>JSON.parse\<close> does with it.
\<close>

record request =
  url :: string
  form :: "(string \<times> string option) list"

datatype body = NotJson | JsonObject jsobject

datatype reply = NetError string | Body body

text \<open>
  What a call runs in: the \<^verbatim>\<open>Auth\<close> object itself, the requests posted so far (oldest
  first) and the number of times the clock has been read. The environment gives the
  value of each clock reading (\<^verbatim>\<open>new Date().getTime()\<close>) and the reply to each request,
  which may depend on how many requests went before.
\<close>

record world = Auth +
  sent :: "request list"
  ticks :: nat

record env =
  clock :: "nat \<Rightarrow> int"
  net :: "nat \<Rightarrow> request \<Rightarrow> reply"

text \<open>
  Errors as values. \<open>TransportError err\<close> is the \<^verbatim>\<open>err\<close> object that \<^verbatim>\<open>request\<close> passed to
  the callback. A promise ends in one of three ways: resolved, rejected, or never settled
  because the callback of \<^verbatim>\<open>request.post\<close> threw: that callback runs from the event loop,
  after the promise's executor has returned, so an exception raised in it reaches neither
  \<^verbatim>\<open>resolve\<close> nor \<^verbatim>\<open>reject\<close> and leaves the callback uncaught.
\<close>

datatype jserror =
  TransportError string
  | SyntaxError
  | ReferenceError string
  | NoOAuthTokenError string

datatype 'a outcome = Resolved 'a | Rejected jserror | Unsettled jserror

section \<open>JavaScript operators used by the code\<close>

datatype jsnum = Num int | NaN

definition to_number :: "int option \<Rightarrow> jsnum" where
  "to_number v = (case v of None \<Rightarrow> NaN | Some n \<Rightarrow> Num n)"

fun js_times :: "jsnum \<Rightarrow> jsnum \<Rightarrow> jsnum" where
  "js_times (Num a) (Num b) = Num (a * b)"
| "js_times _ _ = NaN"

fun js_plus :: "jsnum \<Rightarrow> jsnum \<Rightarrow> jsnum" where
  "js_plus (Num a) (Num b) = Num (a + b)"
| "js_plus _ _ = NaN"

fun js_less :: "jsnum \<Rightarrow> jsnum \<Rightarrow> bool" where
  "js_less (Num a) (Num b) = (a < b)"
| "js_less _ _ = False"

text \<open>\<^verbatim>\<open>!!v\<close> and \<^verbatim>\<open>v || d\<close> on a string that may be undefined.\<close>

definition to_boolean :: "string option \<Rightarrow> bool" where
  "to_boolean v = (case v of None \<Rightarrow> False | Some s \<Rightarrow> s \<noteq> [])"

definition js_or :: "string option \<Rightarrow> string \<Rightarrow> string" where
  "js_or v d = (case v of None \<Rightarrow> d | Some s \<Rightarrow> if to_boolean v then s else d)"

text \<open>The property name that \<^verbatim>\<open>obj[v]\<close> uses.\<close>

definition to_key :: "string option \<Rightarrow> string" where
  "to_key v = (case v of None \<Rightarrow> ''undefined'' | Some s \<Rightarrow> s)"

text \<open>\<^verbatim>\<open>JSON.parse(body)\<close> throws a SyntaxError or returns the object.\<close>

definition JSON_parse :: "body \<Rightarrow> jserror + jsobject" where
  "JSON_parse b = (case b of NotJson \<Rightarrow> Inl SyntaxError | JsonObject d \<Rightarrow> Inr d)"

text \<open>\<^verbatim>\<open>new Date().getTime()\<close>: the next clock reading.\<close>

definition getTime :: "env \<Rightarrow> world \<Rightarrow> int \<times> world" where
  "getTime e w = (clock e (ticks w), w\<lparr>ticks := Suc (ticks w)\<rparr>)"

text \<open>\<^verbatim>\<open>request.post\<close>: the request goes out, the reply is the environment's.\<close>

definition post :: "env \<Rightarrow> world \<Rightarrow> request \<Rightarrow> reply \<times> world" where
  "post e w r = (net e (length (sent w)) r, w\<lparr>sent := sent w @ [r]\<rparr>)"

text \<open>
  \<^verbatim>\<open>await p\<close> inside an async function, followed by the rest of the function: a rejection
  of \<open>p\<close> rejects the function's own promise, and a promise that never settles leaves the
  function suspended for good.
\<close>

fun await :: "'a outcome \<times> world \<Rightarrow> ('a \<Rightarrow> world \<Rightarrow> 'b outcome \<times> world) \<Rightarrow> 'b outcome \<times> world" where
  "await (Resolved v, w) k = k v w"
| "await (Rejected x, w) k = (Rejected x, w)"
| "await (Unsettled x, w) k = (Unsettled x, w)"

section \<open>Node's querystring.stringify\<close>







section \<open>The functions of index.js\<close>


text \<open>
  Lines 19-21. The right operand of \<^verbatim>\<open>&&\<close> is evaluated, and the clock read, only when
  \<^verbatim>\<open>access_token\<close> is truthy.
\<close>

definition isValid :: "env \<Rightarrow> world \<Rightarrow> AccessToken \<Rightarrow> bool \<times> world" where
  "isValid e w t =
     (if to_boolean (access_token (data t)) then
        (let (now, w') = getTime e w in
         (js_less (Num now)
            (js_plus (to_number (create_at (data t)))
               (js_times (to_number (expires_in (data t))) (Num 1000))), w'))
      else (False, w))"

text \<open>Lines 44-50.\<close>

definition getToken :: "world \<Rightarrow> string option \<Rightarrow> jsobject option" where
  "getToken w oid = store w (to_key oid)"

definition saveToken :: "world \<Rightarrow> string option \<Rightarrow> jsobject \<Rightarrow> world" where
  "saveToken w oid token = w\<lparr>store := (store w)(to_key oid \<mapsto> token)\<rparr>"

text \<open>Lines 76-81.\<close>

definition processToken :: "env \<Rightarrow> world \<Rightarrow> jsobject \<Rightarrow> AccessToken \<times> world" where
  "processToken e w d =
     (let (now, w1) = getTime e w;
          d' = d\<lparr>create_at := Some now\<rparr>;
          w2 = saveToken w1 (openid d') d'
      in (AccessToken d', w2))"

text \<open>
  The callback shared by lines 117-124 and 160-167: \<^verbatim>\<open>reject(err)\<close> when \<^verbatim>\<open>err\<close> is set;
  otherwise \<^verbatim>\<open>JSON.parse(body)\<close>, whose exception escapes the callback, and
  \<^verbatim>\<open>resolve(this.processToken(data))\<close>.
\<close>

definition token_callback :: "env \<Rightarrow> reply \<times> world \<Rightarrow> AccessToken outcome \<times> world" where
  "token_callback e rw =
     (case rw of
        (NetError err, w) \<Rightarrow> (Rejected (TransportError err), w)
      | (Body b, w) \<Rightarrow>
          (case JSON_parse b of
             Inl x \<Rightarrow> (Unsettled x, w)
           | Inr d \<Rightarrow> (let (t, w') = processToken e w d in (Resolved t, w'))))"

text \<open>Lines 108-126.\<close>

definition getAccessToken :: "env \<Rightarrow> world \<Rightarrow> string \<Rightarrow> AccessToken outcome \<times> world" where
  "getAccessToken e w code =
     (let url = ''https://api.weixin.qq.com/sns/oauth2/access_token'';
          info = [(''appid'', Some (appid w)),
                  (''secret'', Some (appsecret w)),
                  (''code'', Some code),
                  (''grant_type'', Some ''authorization_code'')]
      in token_callback e (post e w \<lparr>url = url, form = info\<rparr>))"

text \<open>Lines 152-169.\<close>

definition refreshAccessToken :: "env \<Rightarrow> world \<Rightarrow> string option \<Rightarrow> AccessToken outcome \<times> world" where
  "refreshAccessToken e w refreshToken =
     (let url = ''https://api.weixin.qq.com/sns/oauth2/refresh_token'';
          info = [(''appid'', Some (appid w)),
                  (''grant_type'', Some ''refresh_token''),
                  (''refresh_token'', refreshToken)]
      in token_callback e (post e w \<lparr>url = url, form = info\<rparr>))"

text \<open>Lines 229-245 (\<^verbatim>\<open>_getUser\<close>): the parsed body is the profile, returned as it is.\<close>

definition underscore_getUser ::
  "env \<Rightarrow> world \<Rightarrow> string option \<Rightarrow> string option \<Rightarrow> string option \<Rightarrow> jsobject outcome \<times> world" where
  "underscore_getUser e w oid accessToken lang =
     (let url = ''https://api.weixin.qq.com/sns/userinfo'';
          info = [(''access_token'', accessToken),
                  (''openid'', oid),
                  (''lang'', Some (js_or lang ''zh_CN''))]
      in case post e w \<lparr>url = url, form = info\<rparr> of
           (NetError err, w') \<Rightarrow> (Rejected (TransportError err), w')
         | (Body b, w') \<Rightarrow>
             (case JSON_parse b of
                Inl x \<Rightarrow> (Unsettled x, w')
              | Inr d \<Rightarrow> (Resolved d, w')))"

text \<open>
  Lines 210-227. No declaration of index.js binds the name \<^verbatim>\<open>options\<close>: evaluating
  \<^verbatim>\<open>options.openid\<close> on line 214 raises a ReferenceError before the \<^verbatim>\<open>Error\<close> object is
  built, so lines 215-216 are never reached. The exception is raised in the body of an
  async function and rejects its promise. \<^verbatim>\<open>console.log\<close> is not modelled.
\<close>

definition getUser :: "env \<Rightarrow> world \<Rightarrow> string option \<Rightarrow> jsobject outcome \<times> world" where
  "getUser e w oid =
     (case getToken w oid of
        None \<Rightarrow> (Rejected (ReferenceError ''options is not defined''), w)
      | Some d \<Rightarrow>
          (let token = AccessToken d;
               (valid, w1) = isValid e w token
           in if valid then underscore_getUser e w1 oid (access_token (data token)) None
              else await (refreshAccessToken e w1 (refresh_token (data token)))
                     (\<lambda>newToken w2.
                        underscore_getUser e w2 oid (access_token (data newToken)) None)))"

text \<open>Lines 275-278.\<close>

definition getUserByCode :: "env \<Rightarrow> world \<Rightarrow> string \<Rightarrow> jsobject outcome \<times> world" where
  "getUserByCode e w code =
     await (getAccessToken e w code) (\<lambda>token w1. getUser e w1 (openid (data token)))"

section \<open>Reading a URL back\<close>







section \<open>The requests the code posts\<close>

text \<open>
  The three requests of index.js, written out once so that statements can name them:
  lines 110-117 (code for token), 154-160 (refresh) and 231-237 (profile, with the
  default \<^verbatim>\<open>lang\<close>). \<open>stamp\<close> is the assignment of line 77.
\<close>

definition token_request :: "world \<Rightarrow> string \<Rightarrow> request" where
  "token_request w code =
     \<lparr>url = ''https://api.weixin.qq.com/sns/oauth2/access_token'',
      form = [(''appid'', Some (appid w)),
              (''secret'', Some (appsecret w)),
              (''code'', Some code),
              (''grant_type'', Some ''authorization_code'')]\<rparr>"

definition refresh_request :: "world \<Rightarrow> string option \<Rightarrow> request" where
  "refresh_request w refreshToken =
     \<lparr>url = ''https://api.weixin.qq.com/sns/oauth2/refresh_token'',
      form = [(''appid'', Some (appid w)),
              (''grant_type'', Some ''refresh_token''),
              (''refresh_token'', refreshToken)]\<rparr>"

definition userinfo_request :: "string option \<Rightarrow> string option \<Rightarrow> request" where
  "userinfo_request oid accessToken =
     \<lparr>url = ''https://api.weixin.qq.com/sns/userinfo'',
      form = [(''access_token'', accessToken),
              (''openid'', oid),
              (''lang'', Some ''zh_CN'')]\<rparr>"

definition stamp :: "int \<Rightarrow> jsobject \<Rightarrow> jsobject" where
  "stamp now p = p\<lparr>create_at := Some now\<rparr>"

text \<open>
  The composition that \<^verbatim>\<open>getUserByCode\<close> is compared with, as a caller would write it:
  the exchange first; if it resolves, the profile of the returned record's \<^verbatim>\<open>openid\<close>, in
  the session the exchange left; if it does not, the call ends as the exchange did.
\<close>

definition exchange_then_profile :: "env \<Rightarrow> world \<Rightarrow> string \<Rightarrow> jsobject outcome \<times> world" where
  "exchange_then_profile e w code =
     (case getAccessToken e w code of
        (Resolved record, w1) \<Rightarrow> getUser e w1 (openid (data record))
      | (Rejected failure, w1) \<Rightarrow> (Rejected failure, w1)
      | (Unsettled failure, w1) \<Rightarrow> (Unsettled failure, w1))"

section \<open>An example session\<close>

text \<open>
  A session with an empty store, one whose store holds a record for \<^verbatim>\<open>U1\<close> that ran out
  two seconds before the first clock reading, a payload as the provider sends it (with a
  \<^verbatim>\<open>create_at\<close> of its own), a profile, and an environment that answers each of the three
  endpoints with a fixed reply.
\<close>

definition demo_world :: world where
  "demo_world = \<lparr>appid = ''wx0'', appsecret = ''secret'', store = Map.empty, sent = [], ticks = 0\<rparr>"

definition demo_payload :: "string \<Rightarrow> string \<Rightarrow> jsobject" where
  "demo_payload oid tok =
     \<lparr>access_token = Some tok, expires_in = Some 7200, refresh_token = Some (''R-'' @ tok),
      openid = Some oid, create_at = Some 5, rest = [(''scope'', ''snsapi_base'')]\<rparr>"

definition demo_profile :: jsobject where
  "demo_profile =
     \<lparr>access_token = None, expires_in = None, refresh_token = None, openid = Some ''U1'',
      create_at = None, rest = [(''nickname'', ''NICKNAME''), (''sex'', ''1'')]\<rparr>"

definition demo_env :: "reply \<Rightarrow> reply \<Rightarrow> reply \<Rightarrow> env" where
  "demo_env a b c =
     \<lparr>clock = (\<lambda>n. 1500000000000 + int n),
      net = (\<lambda>n r.
        if url r = ''https://api.weixin.qq.com/sns/oauth2/access_token'' then a
        else if url r = ''https://api.weixin.qq.com/sns/oauth2/refresh_token'' then b
        else c)\<rparr>"

definition expired_payload :: jsobject where
  "expired_payload =
     \<lparr>access_token = Some ''OLD'', expires_in = Some 1, refresh_token = Some ''R-OLD'',
      openid = Some ''U1'', create_at = Some (1500000000000 - 2000), rest = [(''unionid'', ''X'')]\<rparr>"

definition expired_world :: world where
  "expired_world = demo_world\<lparr>store := [''U1'' \<mapsto> expired_payload]\<rparr>"

section \<open>The validity rule\<close>

lemma isValid_value:
  "fst (isValid e w (AccessToken d)) =
     ((\<exists>s. access_token d = Some s \<and> s \<noteq> []) \<and>
      (\<exists>c x. create_at d = Some c \<and> expires_in d = Some x \<and> clock e (ticks w) < c + x * 1000))"
  by (cases "access_token d"; cases "create_at d"; cases "expires_in d")
     (simp_all add: isValid_def to_boolean_def to_number_def getTime_def)

lemma isValid_world:
  "snd (isValid e w (AccessToken d)) =
     (if to_boolean (access_token d) then w\<lparr>ticks := Suc (ticks w)\<rparr> else w)"
  by (simp add: isValid_def getTime_def)



section \<open>The authorization URL\<close>
























section \<open>The token endpoints\<close>

lemma token_callback_NetError:
  "token_callback e (NetError err, w) = (Rejected (TransportError err), w)"
  by (simp add: token_callback_def)

lemma token_callback_NotJson:
  "token_callback e (Body NotJson, w) = (Unsettled SyntaxError, w)"
  by (simp add: token_callback_def JSON_parse_def)

lemma token_callback_JsonObject:
  "token_callback e (Body (JsonObject p), w) =
     (Resolved (AccessToken (stamp (clock e (ticks w)) p)),
      w\<lparr>store := (store w)(to_key (openid p) \<mapsto> stamp (clock e (ticks w)) p),
        ticks := Suc (ticks w)\<rparr>)"
  by (simp add: token_callback_def JSON_parse_def processToken_def getTime_def saveToken_def stamp_def Let_def)

lemma getAccessToken_post:
  "getAccessToken e w code =
     token_callback e (net e (length (sent w)) (token_request w code),
                       w\<lparr>sent := sent w @ [token_request w code]\<rparr>)"
  by (simp add: getAccessToken_def post_def token_request_def Let_def)

lemma refreshAccessToken_post:
  "refreshAccessToken e w r =
     token_callback e (net e (length (sent w)) (refresh_request w r),
                       w\<lparr>sent := sent w @ [refresh_request w r]\<rparr>)"
  by (simp add: refreshAccessToken_def post_def refresh_request_def Let_def)




lemma underscore_getUser_post:
  "underscore_getUser e w oid tok None =
     (case net e (length (sent w)) (userinfo_request oid tok) of
        NetError err \<Rightarrow> Rejected (TransportError err)
      | Body NotJson \<Rightarrow> Unsettled SyntaxError
      | Body (JsonObject p) \<Rightarrow> Resolved p,
      w\<lparr>sent := sent w @ [userinfo_request oid tok]\<rparr>)"
  by (simp add: underscore_getUser_def post_def userinfo_request_def js_or_def JSON_parse_def Let_def
      split: reply.splits body.splits)

lemma getUser_absent:
  "store w (to_key u) = None \<Longrightarrow>
   getUser e w u = (Rejected (ReferenceError ''options is not defined''), w)"
  by (simp add: getUser_def getToken_def)

lemma getUser_valid:
  assumes "store w (to_key u) = Some d" and "fst (isValid e w (AccessToken d))"
  shows "getUser e w u = underscore_getUser e (w\<lparr>ticks := Suc (ticks w)\<rparr>) u (access_token d) None"
proof -
  from assms(2) have t: "to_boolean (access_token d)"
    by (auto simp: isValid_value to_boolean_def)
  have "isValid e w (AccessToken d) = (True, w\<lparr>ticks := Suc (ticks w)\<rparr>)"
    using assms(2) t isValid_world [of e w d] by (simp add: prod_eq_iff)
  then show ?thesis using assms(1)
    by (simp add: getUser_def getToken_def Let_def)
qed




text \<open>
  C8. When \<^verbatim>\<open>request\<close> reports an error, \<^verbatim>\<open>getAccessToken\<close> and \<^verbatim>\<open>refreshAccessToken\<close> reject
  with that error; exactly one request has been posted, and nothing else of the session
  has changed, the store included.
\<close>

theorem transport_failure_rejects_once:
  "(net e (length (sent w)) (token_request w code) = NetError err \<longrightarrow>
      getAccessToken e w code =
        (Rejected (TransportError err), w\<lparr>sent := sent w @ [token_request w code]\<rparr>)) \<and>
   (net e (length (sent w)) (refresh_request w r) = NetError err \<longrightarrow>
      refreshAccessToken e w r =
        (Rejected (TransportError err), w\<lparr>sent := sent w @ [refresh_request w r]\<rparr>))"
  by (simp add: getAccessToken_post refreshAccessToken_post token_callback_NetError)

theorem transport_failure_rejects_once_witness:
  "(let e = demo_env (NetError ''ETIMEDOUT'') (NetError ''ENOTFOUND'') (NetError ''unused'');
        a = getAccessToken e expired_world ''CODE'';
        b = refreshAccessToken e expired_world (Some ''R-OLD'')
    in net e (length (sent expired_world)) (token_request expired_world ''CODE'') = NetError ''ETIMEDOUT'' \<and>
       net e (length (sent expired_world)) (refresh_request expired_world (Some ''R-OLD'')) = NetError ''ENOTFOUND'' \<and>
       a = (Rejected (TransportError ''ETIMEDOUT''),
            expired_world\<lparr>sent := [token_request expired_world ''CODE'']\<rparr>) \<and>
       b = (Rejected (TransportError ''ENOTFOUND''),
            expired_world\<lparr>sent := [refresh_request expired_world (Some ''R-OLD'')]\<rparr>) \<and>
       store (snd a) = store expired_world \<and> store (snd b) = store expired_world)"
  using transport_failure_rejects_once
    [of "demo_env (NetError ''ETIMEDOUT'') (NetError ''ENOTFOUND'') (NetError ''unused'')"
        expired_world "''CODE''" "''ETIMEDOUT''"]
    transport_failure_rejects_once
    [of "demo_env (NetError ''ETIMEDOUT'') (NetError ''ENOTFOUND'') (NetError ''unused'')"
        expired_world _ "''ENOTFOUND''" "Some ''R-OLD''"]
  by (simp add: Let_def demo_env_def expired_world_def demo_world_def token_request_def
      refresh_request_def)

text \<open>
  C9 (what the code does on a body that is not JSON). \<^verbatim>\<open>JSON.parse\<close> throws inside the
  callback of \<^verbatim>\<open>request.post\<close>: the promise of \<^verbatim>\<open>getAccessToken\<close>, \<^verbatim>\<open>refreshAccessToken\<close> or
  \<^verbatim>\<open>_getUser\<close> is neither resolved nor rejected, and the SyntaxError leaves the callback
  uncaught. The store is unchanged.
\<close>

theorem malformed_body_never_settles:
  "getAccessToken (e\<lparr>net := \<lambda>n r. Body NotJson\<rparr>) w code =
     (Unsettled SyntaxError, w\<lparr>sent := sent w @ [token_request w code]\<rparr>) \<and>
   refreshAccessToken (e\<lparr>net := \<lambda>n r. Body NotJson\<rparr>) w r =
     (Unsettled SyntaxError, w\<lparr>sent := sent w @ [refresh_request w r]\<rparr>) \<and>
   underscore_getUser (e\<lparr>net := \<lambda>n r. Body NotJson\<rparr>) w u tok None =
     (Unsettled SyntaxError, w\<lparr>sent := sent w @ [userinfo_request u tok]\<rparr>)"
  by (simp add: getAccessToken_post refreshAccessToken_post token_callback_NotJson
      underscore_getUser_post)

section \<open>Fetching the profile\<close>

text \<open>
  C1 (what the code does without a record). In a session whose store holds nothing for
  the identifier, and so in a fresh session asked for \<^verbatim>\<open>unknown-id\<close>, \<^verbatim>\<open>getUser\<close> posts
  nothing and rejects, but with the ReferenceError raised by \<^verbatim>\<open>options.openid\<close>, not with
  the error named \<^verbatim>\<open>NoOAuthTokenError\<close>.
\<close>

theorem getUser_unknown_id_ReferenceError:
  "getUser e (w\<lparr>store := (store w)(to_key u := None)\<rparr>) u =
     (Rejected (ReferenceError ''options is not defined''),
      w\<lparr>store := (store w)(to_key u := None)\<rparr>) \<and>
   getUser e demo_world (Some ''unknown-id'') =
     (Rejected (ReferenceError ''options is not defined''), demo_world)"
  by (simp add: getUser_absent demo_world_def)

text \<open>
  C3. When the store holds a record for the identifier and the record is valid,
  \<^verbatim>\<open>getUser\<close> is the profile request with the record's \<^verbatim>\<open>access_token\<close>: that request is the
  only one posted (none goes to the refresh endpoint) and the store is unchanged.
\<close>

theorem getUser_valid_uses_cached_token:
  assumes "store w (to_key u) = Some d" and "fst (isValid e w (AccessToken d))"
  shows "getUser e w u = underscore_getUser e (w\<lparr>ticks := Suc (ticks w)\<rparr>) u (access_token d) None \<and>
         sent (snd (getUser e w u)) = sent w @ [userinfo_request u (access_token d)] \<and>
         store (snd (getUser e w u)) = store w"
  using getUser_valid [OF assms] by (simp add: underscore_getUser_post)

theorem getUser_valid_uses_cached_token_witness:
  "(let e = demo_env (Body (JsonObject (demo_payload ''U1'' ''AT1''))) (NetError ''down'')
              (Body (JsonObject demo_profile));
        w = snd (getAccessToken e demo_world ''CODE'');
        d = stamp 1500000000000 (demo_payload ''U1'' ''AT1'')
    in store w (to_key (Some ''U1'')) = Some d \<and>
       fst (isValid e w (AccessToken d)) \<and>
       getUser e w (Some ''U1'') = underscore_getUser e (w\<lparr>ticks := Suc (ticks w)\<rparr>) (Some ''U1'') (Some ''AT1'') None \<and>
       fst (getUser e w (Some ''U1'')) = Resolved demo_profile \<and>
       sent (snd (getUser e w (Some ''U1''))) =
         [token_request demo_world ''CODE'', userinfo_request (Some ''U1'') (Some ''AT1'')])"
proof -
  let ?e = "demo_env (Body (JsonObject (demo_payload ''U1'' ''AT1''))) (NetError ''down'')
              (Body (JsonObject demo_profile))"
  let ?w = "snd (getAccessToken ?e demo_world ''CODE'')"
  let ?d = "stamp 1500000000000 (demo_payload ''U1'' ''AT1'')"
  have s: "store ?w (to_key (Some ''U1'')) = Some ?d"
    by (simp add: getAccessToken_post token_callback_JsonObject demo_env_def demo_world_def
        token_request_def demo_payload_def to_key_def)
  have v: "fst (isValid ?e ?w (AccessToken ?d))"
    by (simp add: isValid_value getAccessToken_post token_callback_JsonObject demo_env_def
        demo_world_def token_request_def demo_payload_def stamp_def)
  show ?thesis
    using getUser_valid_uses_cached_token [OF s v] s v
    by (simp add: Let_def underscore_getUser_post getAccessToken_post token_callback_JsonObject
        demo_env_def demo_world_def token_request_def userinfo_request_def demo_payload_def stamp_def)
qed





section \<open>Profile by code\<close>

text \<open>
  C6. \<^verbatim>\<open>getUserByCode(code)\<close> is \<^verbatim>\<open>getAccessToken(code)\<close> followed, when it resolves, by
  \<^verbatim>\<open>getUser\<close> on the \<^verbatim>\<open>openid\<close> of the returned record, in result and in every effect on
  the session; when the first step does not resolve, it ends as that step did.
\<close>

theorem getUserByCode_is_exchange_then_profile:
  "getUserByCode e w code = exchange_then_profile e w code"
proof (cases "getAccessToken e w code")
  case (Pair r w1)
  then show ?thesis
    by (cases r) (simp_all add: getUserByCode_def exchange_then_profile_def)
qed

theorem getUserByCode_is_exchange_then_profile_witness:
  "(let e = demo_env (Body (JsonObject (demo_payload ''U1'' ''AT1''))) (NetError ''unused'')
              (Body (JsonObject demo_profile))
    in getUserByCode e demo_world ''CODE'' = exchange_then_profile e demo_world ''CODE'' \<and>
       fst (getUserByCode e demo_world ''CODE'') = Resolved demo_profile \<and>
       sent (snd (getUserByCode e demo_world ''CODE'')) =
         [token_request demo_world ''CODE'', userinfo_request (Some ''U1'') (Some ''AT1'')] \<and>
       store (snd (getUserByCode e demo_world ''CODE'')) ''U1'' =
         Some ((demo_payload ''U1'' ''AT1'')\<lparr>create_at := Some 1500000000000\<rparr>)) \<and>
   (let e = demo_env (NetError ''ETIMEDOUT'') (NetError ''unused'') (NetError ''unused'')
    in getUserByCode e demo_world ''CODE'' =
         (Rejected (TransportError ''ETIMEDOUT''),
          demo_world\<lparr>sent := [token_request demo_world ''CODE'']\<rparr>))"
proof -
  let ?e = "demo_env (Body (JsonObject (demo_payload ''U1'' ''AT1''))) (NetError ''unused'')
              (Body (JsonObject demo_profile))"
  let ?f = "demo_env (NetError ''ETIMEDOUT'') (NetError ''unused'') (NetError ''unused'')"
  let ?d = "(demo_payload ''U1'' ''AT1'')\<lparr>create_at := Some 1500000000000\<rparr>"
  let ?w = "demo_world\<lparr>store := [''U1'' \<mapsto> ?d], sent := [token_request demo_world ''CODE''],
              ticks := 1\<rparr>"
  have x: "getAccessToken ?e demo_world ''CODE'' = (Resolved (AccessToken ?d), ?w)"
    by (simp add: getAccessToken_post token_callback_JsonObject demo_env_def demo_world_def
        token_request_def stamp_def demo_payload_def to_key_def)
  have s: "store ?w (to_key (Some ''U1'')) = Some ?d"
    by (simp add: to_key_def)
  have v: "fst (isValid ?e ?w (AccessToken ?d))"
    by (simp add: isValid_value demo_env_def demo_world_def demo_payload_def)
  have g: "getUser ?e ?w (Some ''U1'') =
      (Resolved demo_profile,
       ?w\<lparr>sent := [token_request demo_world ''CODE'', userinfo_request (Some ''U1'') (Some ''AT1'')],
          ticks := 2\<rparr>)"
    unfolding getUser_valid [OF s v]
    by (simp add: underscore_getUser_post demo_env_def demo_world_def userinfo_request_def
        demo_payload_def)
  have o: "openid (data (AccessToken ?d)) = Some ''U1''"
    by (simp add: demo_payload_def)
  have 1: "exchange_then_profile ?e demo_world ''CODE'' =
      (Resolved demo_profile,
       ?w\<lparr>sent := [token_request demo_world ''CODE'', userinfo_request (Some ''U1'') (Some ''AT1'')],
          ticks := 2\<rparr>)"
    unfolding exchange_then_profile_def x by (simp only: prod.case outcome.case o g)
  have 2: "exchange_then_profile ?f demo_world ''CODE'' =
         (Rejected (TransportError ''ETIMEDOUT''),
          demo_world\<lparr>sent := [token_request demo_world ''CODE'']\<rparr>)"
    by (simp add: exchange_then_profile_def getAccessToken_post token_callback_NetError
        demo_env_def demo_world_def token_request_def)
  have 3: "getUserByCode ?e demo_world ''CODE'' =
      (Resolved demo_profile,
       ?w\<lparr>sent := [token_request demo_world ''CODE'', userinfo_request (Some ''U1'') (Some ''AT1'')],
          ticks := 2\<rparr>)"
    using getUserByCode_is_exchange_then_profile [of ?e demo_world "''CODE''"] 1 by (rule trans)
  have 4: "getUserByCode ?f demo_world ''CODE'' =
         (Rejected (TransportError ''ETIMEDOUT''),
          demo_world\<lparr>sent := [token_request demo_world ''CODE'']\<rparr>)"
    using getUserByCode_is_exchange_then_profile [of ?f demo_world "''CODE''"] 2 by (rule trans)
  show ?thesis
    unfolding Let_def 3 4 1 by simp
qed

end
